theory Spec2Isabelle
  imports Complex_Main "HOL-Library.Word" "HOL-Library.AList"
begin

section \<open>JavaScript values used by the two panels\<close>

subsection \<open>Strings\<close>

text \<open>
  A JavaScript string is a sequence of UTF-16 code units. Literals of the source are
  ASCII and are written \<open>cu ''...''\<close>.
\<close>

type_synonym jsstring = "16 word list"

definition cu :: "string \<Rightarrow> jsstring" where
  "cu s = map of_char s"

text \<open>
  \<open>String.prototype.trim\<close> removes white space and line terminators from both ends:
  TAB, LF, VT, FF, CR, SPACE, NBSP, U+1680, U+2000 to U+200A, U+2028, U+2029, U+202F,
  U+205F, U+3000 and U+FEFF.
\<close>

definition is_white_space :: "16 word \<Rightarrow> bool" where
  "is_white_space c \<longleftrightarrow>
     c \<in> {0x9, 0xA, 0xB, 0xC, 0xD, 0x20, 0xA0, 0x1680, 0x2028, 0x2029, 0x202F, 0x205F,
          0x3000, 0xFEFF}
     \<or> (0x2000 \<le> c \<and> c \<le> 0x200A)"

definition trim :: "jsstring \<Rightarrow> jsstring" where
  "trim s = rev (dropWhile is_white_space (rev (dropWhile is_white_space s)))"

text \<open>
  A value of type \<open>string | null | undefined\<close> is a \<open>jsstring option\<close>; \<open>null\<close> and
  \<open>undefined\<close> are both \<open>None\<close> (the code only tests them for truthiness, with
  \<open>?.\<close> and with \<open>??\<close>, which do not tell them apart). A string is truthy when it is
  not empty.
\<close>

definition truthy_str :: "jsstring \<Rightarrow> bool" where
  "truthy_str s \<longleftrightarrow> s \<noteq> []"

definition truthy :: "jsstring option \<Rightarrow> bool" where
  "truthy p = (case p of None \<Rightarrow> False | Some s \<Rightarrow> truthy_str s)"

text \<open>The expression \<open>p?.trim() || null\<close>.\<close>

definition trim_or_null :: "jsstring option \<Rightarrow> jsstring option" where
  "trim_or_null p =
     (case p of
        None \<Rightarrow> None
      | Some s \<Rightarrow> (if truthy_str (trim s) then Some (trim s) else None))"

subsection \<open>Numbers\<close>

text \<open>
  A JavaScript \<open>number\<close> is a double: \<open>NaN\<close>, one of the two infinities, or a finite
  value, here the real number it denotes (\<open>-0\<close> and \<open>0\<close> are the same value; no
  expression of the two panels tells them apart). A decimal literal of the source such
  as \<open>2.046\<close> stands for the double next to it, which has the same sign.
\<close>

datatype number = NaN | NegInf | Fin real | PosInf

text \<open>The relational operators \<open><=\<close> and \<open><\<close>: false as soon as one side is \<open>NaN\<close>.\<close>

fun js_le :: "number \<Rightarrow> number \<Rightarrow> bool" where
  "js_le NaN b = False"
| "js_le a NaN = False"
| "js_le NegInf b = True"
| "js_le a PosInf = True"
| "js_le (Fin x) (Fin y) = (x \<le> y)"
| "js_le a b = False"

fun js_lt :: "number \<Rightarrow> number \<Rightarrow> bool" where
  "js_lt NaN b = False"
| "js_lt a NaN = False"
| "js_lt PosInf b = False"
| "js_lt a NegInf = False"
| "js_lt (Fin x) (Fin y) = (x < y)"
| "js_lt a b = True"

definition js_gt :: "number \<Rightarrow> number \<Rightarrow> bool" where
  "js_gt a b = js_lt b a"

definition js_ge :: "number \<Rightarrow> number \<Rightarrow> bool" where
  "js_ge a b = js_le b a"

text \<open>Strict equality \<open>===\<close> on numbers: \<open>NaN\<close> equals nothing, itself included.\<close>

definition js_strict_eq :: "number \<Rightarrow> number \<Rightarrow> bool" where
  "js_strict_eq a b \<longleftrightarrow> a \<noteq> NaN \<and> b \<noteq> NaN \<and> a = b"

text \<open>
  \<open>Array.prototype.includes\<close> compares with SameValueZero, under which \<open>NaN\<close> equals
  itself and \<open>-0\<close> equals \<open>0\<close>: on this representation, plain equality.
\<close>

definition array_includes :: "number list \<Rightarrow> number \<Rightarrow> bool" where
  "array_includes xs v \<longleftrightarrow> v \<in> set xs"

section \<open>The image panel\<close>

subsection \<open>Configuration\<close>

text \<open>
  The fields that \<open>ImageConfig\<close> and \<open>VideoConfig\<close> have in common are declared once,
  so that each keeps its source name in both records.
\<close>

record RenderConfig =
  scale_down :: number
  font_size :: number
  height_sample_scale :: number
  invert :: bool
  overwrite :: bool

record ImageConfig = RenderConfig +
  image_path :: jsstring
  output_file_path :: "jsstring option"
  output_image_path :: "jsstring option"

definition defaultImageConfig :: ImageConfig where
  "defaultImageConfig =
     \<lparr> scale_down = Fin 1.0,
       font_size = Fin 12.0,
       height_sample_scale = Fin 2.046,
       invert = False,
       overwrite = False,
       image_path = cu '''',
       output_file_path = None,
       output_image_path = None \<rparr>"

subsection \<open>Validation and submission\<close>

definition msg_input_image :: jsstring where
  "msg_input_image = cu ''Input image is required.''"

definition msg_one_output :: jsstring where
  "msg_one_output = cu ''Choose at least one output: text file or image file.''"

definition msg_scale_down :: jsstring where
  "msg_scale_down = cu ''Scale down must be greater than 0.''"

definition msg_font_size :: jsstring where
  "msg_font_size = cu ''Font size must be greater than 0.''"

definition msg_height_sample_scale :: jsstring where
  "msg_height_sample_scale = cu ''Height sample scale must be greater than 0.''"

text \<open>The computed \<open>validationErrors\<close> of the image panel: each failed test pushes its message.\<close>

definition validationErrors :: "ImageConfig \<Rightarrow> jsstring list" where
  "validationErrors config =
     (if \<not> truthy_str (trim (image_path config)) then [msg_input_image] else []) @
     (if \<not> truthy (output_file_path config) \<and> \<not> truthy (output_image_path config)
      then [msg_one_output] else []) @
     (if js_le (scale_down config) (Fin 0) then [msg_scale_down] else []) @
     (if js_le (font_size config) (Fin 0) then [msg_font_size] else []) @
     (if js_le (height_sample_scale config) (Fin 0) then [msg_height_sample_scale] else [])"

definition canSubmit :: "bool \<Rightarrow> ImageConfig \<Rightarrow> bool" where
  "canSubmit is_processing config \<longleftrightarrow>
     \<not> is_processing \<and> length (validationErrors config) = 0"

text \<open>The payload that \<open>processImage\<close> builds and passes to \<open>process_image\<close>.\<close>

definition processImage_payload :: "ImageConfig \<Rightarrow> ImageConfig" where
  "processImage_payload config =
     config \<lparr> output_file_path := trim_or_null (output_file_path config),
              output_image_path := trim_or_null (output_image_path config) \<rparr>"

section \<open>The video panel\<close>

subsection \<open>Arithmetic of the progress listener\<close>

fun Math_floor :: "number \<Rightarrow> number" where
  "Math_floor (Fin x) = Fin (of_int \<lfloor>x\<rfloor>)"
| "Math_floor a = a"

fun Math_min :: "number \<Rightarrow> number \<Rightarrow> number" where
  "Math_min NaN b = NaN"
| "Math_min a NaN = NaN"
| "Math_min a b = (if js_le a b then a else b)"

text \<open>
  The product of two doubles is the exact product rounded to a double, or to an infinity
  when it overflows. The rounding is the parameter \<open>rnd\<close> of the multiplication and of
  every function that multiplies.
\<close>

fun js_times :: "(real \<Rightarrow> number) \<Rightarrow> number \<Rightarrow> number \<Rightarrow> number" where
  "js_times rnd NaN b = NaN"
| "js_times rnd a NaN = NaN"
| "js_times rnd (Fin x) (Fin y) = rnd (x * y)"
| "js_times rnd (Fin x) b =
     (if x = 0 then NaN else if (0 < x) = (b = PosInf) then PosInf else NegInf)"
| "js_times rnd a (Fin y) =
     (if y = 0 then NaN else if (0 < y) = (a = PosInf) then PosInf else NegInf)"
| "js_times rnd a b = (if a = b then PosInf else NegInf)"

text \<open>
  What the properties below use of the rounding: it is monotone, and it leaves 0 and 100,
  which are doubles, as they are. Rounding to the nearest double has both properties.
\<close>

definition monotone_rounding :: "(real \<Rightarrow> number) \<Rightarrow> bool" where
  "monotone_rounding rnd \<longleftrightarrow>
     (\<forall>x y. x \<le> y \<longrightarrow> js_le (rnd x) (rnd y)) \<and> rnd 0 = Fin 0 \<and> rnd 100 = Fin 100"

text \<open>A rounding with these properties that is not exact: to the nearest multiple of 1/1024.\<close>

definition round_1024 :: "real \<Rightarrow> number" where
  "round_1024 x = Fin (of_int \<lfloor>x * 1024 + 1 / 2\<rfloor> / 1024)"

subsection \<open>Configuration\<close>

text \<open>
  Modelled from the spec: the interface \<open>VideoConfig\<close> is declared in \<open>./video\<close>, which is
  not among the sources. Its fields are those the panel reads and binds and section 3 of
  the specification lists. The field \<open>rotate\<close> is named \<open>rotate_field\<close> here.
\<close>

record VideoConfig = RenderConfig +
  video_path :: jsstring
  output_video_path :: "jsstring option"
  max_fps :: number
  use_max_fps_for_output_video :: bool
  rotate_field :: number

subsection \<open>Validation\<close>

definition msg_input_video :: jsstring where
  "msg_input_video = cu ''Input video is required.''"

definition msg_output_video :: jsstring where
  "msg_output_video = cu ''Output video path is required (MP4).''"

definition msg_max_fps :: jsstring where
  "msg_max_fps = cu ''Max FPS must be greater than 0.''"

definition msg_rotate :: jsstring where
  "msg_rotate = cu ''Rotate must be -1 (no rotate), 0 (90 CW), 1 (180), or 2 (90 CCW).''"

text \<open>The computed \<open>validationErrors\<close> of the video panel.\<close>

definition validationErrors_video :: "VideoConfig \<Rightarrow> jsstring list" where
  "validationErrors_video config =
     (if \<not> truthy_str (trim (video_path config)) then [msg_input_video] else []) @
     (if (case output_video_path config of
            None \<Rightarrow> True
          | Some s \<Rightarrow> \<not> truthy_str s \<or> length (trim s) = 0)
      then [msg_output_video] else []) @
     (if js_le (scale_down config) (Fin 0) then [msg_scale_down] else []) @
     (if js_le (font_size config) (Fin 0) then [msg_font_size] else []) @
     (if js_le (height_sample_scale config) (Fin 0) then [msg_height_sample_scale] else []) @
     (if js_le (max_fps config) (Fin 0) then [msg_max_fps] else []) @
     (if \<not> js_strict_eq (rotate_field config) (Fin (- 1)) \<and>
         \<not> array_includes [Fin 0, Fin 1, Fin 2] (rotate_field config)
      then [msg_rotate] else [])"

definition canSubmit_video :: "bool \<Rightarrow> VideoConfig \<Rightarrow> bool" where
  "canSubmit_video is_processing config \<longleftrightarrow>
     \<not> is_processing \<and> length (validationErrors_video config) = 0"

subsection \<open>Picking the output folder\<close>

definition backslash :: jsstring where
  "backslash = [0x5C]"

definition slash :: jsstring where
  "slash = [0x2F]"

text \<open>\<open>s.includes(t)\<close>: \<open>t\<close> occurs in \<open>s\<close>; \<open>s.endsWith(t)\<close>: \<open>s\<close> ends with \<open>t\<close>.\<close>

fun str_includes :: "jsstring \<Rightarrow> jsstring \<Rightarrow> bool" where
  "str_includes [] t = (t = [])"
| "str_includes (c # cs) t = (take (length t) (c # cs) = t \<or> str_includes cs t)"

definition endsWith :: "jsstring \<Rightarrow> jsstring \<Rightarrow> bool" where
  "endsWith s t \<longleftrightarrow> length t \<le> length s \<and> drop (length s - length t) s = t"

text \<open>
  The separator that \<open>pickOutputFile\<close> chooses for the folder the dialog returned, and
  the path it builds from the folder.
\<close>

definition pickOutputFile_separator :: "jsstring \<Rightarrow> jsstring" where
  "pickOutputFile_separator selected =
     (if str_includes selected backslash then backslash else slash)"

definition pickOutputFile_path :: "jsstring \<Rightarrow> jsstring" where
  "pickOutputFile_path selected =
     (let separator = pickOutputFile_separator selected;
          path = (if endsWith selected separator then selected else selected @ separator)
      in path @ cu ''output.mp4'')"

text \<open>
  \<open>pickOutputFile\<close>, given what the dialog returned: a string, or \<open>null\<close> when the user
  cancelled.
\<close>

definition pickOutputFile :: "jsstring option \<Rightarrow> VideoConfig \<Rightarrow> VideoConfig" where
  "pickOutputFile selected config =
     (case selected of
        None \<Rightarrow> config
      | Some dir \<Rightarrow> config \<lparr> output_video_path := Some (pickOutputFile_path dir) \<rparr>)"

subsection \<open>State of the panel, progress listener and run\<close>

datatype status = Idle | Processing | Done | Error

record VideoState =
  processError :: "jsstring option"
  processing :: bool
  progress :: number
  status :: status
  statusDetail :: jsstring
  outputPath :: "jsstring option"
  startedAt :: "number option"
  progressWatcherRunning :: bool

text \<open>The listener that \<open>attachProgressListener\<close> registers on \<open>video-progress\<close>.\<close>

definition on_video_progress :: "(real \<Rightarrow> number) \<Rightarrow> number \<Rightarrow> VideoState \<Rightarrow> VideoState" where
  "on_video_progress rnd payload st =
     (let st1 = st \<lparr> progress := Math_min (Fin 100) (Math_floor (js_times rnd payload (Fin 100))) \<rparr>
      in if js_ge (progress st1) (Fin 100) \<and> status st1 = Processing
         then st1 \<lparr> statusDetail := cu ''Finishing up...'' \<rparr>
         else st1)"

text \<open>The values the progress bar shows, one after each payload delivered.\<close>

fun progress_trace :: "(real \<Rightarrow> number) \<Rightarrow> VideoState \<Rightarrow> number list \<Rightarrow> number list" where
  "progress_trace rnd st [] = []"
| "progress_trace rnd st (p # ps) =
     progress (on_video_progress rnd p st) # progress_trace rnd (on_video_progress rnd p st) ps"

text \<open>
  \<open>processVideo\<close> in its three parts: up to the \<open>await\<close>, the payloads delivered while
  it waits, and what follows once \<open>process_video\<close> has settled. \<open>Date.now()\<close> is the
  argument \<open>now\<close>. A rejection carries \<open>error?.message\<close> and \<open>String(error)\<close>.
  The command \<open>video_progress\<close>, invoked when no watcher is running, settles on its own
  schedule; its \<open>finally\<close> callback is \<open>video_progress_settled\<close>.
\<close>

definition processVideo_payload :: "VideoConfig \<Rightarrow> VideoConfig" where
  "processVideo_payload config =
     config \<lparr> output_video_path := trim_or_null (output_video_path config) \<rparr>"

definition processVideo_begin :: "number \<Rightarrow> VideoState \<Rightarrow> VideoState" where
  "processVideo_begin now st =
     st \<lparr> processError := None,
          status := Processing,
          statusDetail := cu ''Preparing video...'',
          progress := Fin 0,
          outputPath := None,
          startedAt := Some now,
          processing := True,
          progressWatcherRunning := True \<rparr>"

definition video_progress_settled :: "VideoState \<Rightarrow> VideoState" where
  "video_progress_settled st = st \<lparr> progressWatcherRunning := False \<rparr>"

datatype js_error = JsError (message: "jsstring option") (String_of: jsstring)

datatype settled = Resolved | Rejected js_error

definition error_text :: "js_error \<Rightarrow> jsstring" where
  "error_text e =
     (case message e of
        None \<Rightarrow> String_of e
      | Some m \<Rightarrow> (if truthy_str m then m else String_of e))"

definition processVideo_settled :: "VideoConfig \<Rightarrow> settled \<Rightarrow> VideoState \<Rightarrow> VideoState" where
  "processVideo_settled payload r st =
     (case r of
        Resolved \<Rightarrow>
          st \<lparr> progress := Fin 100,
               status := Done,
               statusDetail := cu ''Finished writing output'',
               outputPath := output_video_path payload \<rparr>
      | Rejected e \<Rightarrow>
          st \<lparr> processError := Some (error_text e),
               status := Error,
               statusDetail := cu ''Something went wrong'' \<rparr>)
     \<lparr> processing := False \<rparr>"

definition processVideo ::
  "(real \<Rightarrow> number) \<Rightarrow> VideoConfig \<Rightarrow> number \<Rightarrow> number list \<Rightarrow> settled \<Rightarrow> VideoState \<Rightarrow> VideoState"
where
  "processVideo rnd config now payloads r st =
     processVideo_settled (processVideo_payload config) r
       (fold (on_video_progress rnd) payloads (processVideo_begin now st))"

text \<open>
  The values the progress bar shows across one run: after \<open>processVideo\<close> has reset it,
  after each payload, and after \<open>process_video\<close> has settled.
\<close>

definition run_progress_trace ::
  "(real \<Rightarrow> number) \<Rightarrow> VideoConfig \<Rightarrow> number \<Rightarrow> number list \<Rightarrow> settled \<Rightarrow> VideoState \<Rightarrow> number list"
where
  "run_progress_trace rnd config now payloads r st =
     progress (processVideo_begin now st)
       # progress_trace rnd (processVideo_begin now st) payloads
       @ [progress (processVideo rnd config now payloads r st)]"

text \<open>The state the panel starts in: the initial values of its refs.\<close>

definition initialVideoState :: VideoState where
  "initialVideoState =
     \<lparr> processError = None,
       processing = False,
       progress = Fin 0,
       status = Idle,
       statusDetail = cu ''Waiting to start'',
       outputPath = None,
       startedAt = None,
       progressWatcherRunning = False \<rparr>"

text \<open>
  A video configuration for concrete evaluations (\<open>defaultVideoConfig\<close> is declared in
  \<open>./video\<close>, with the interface).
\<close>

definition exampleVideoConfig :: VideoConfig where
  "exampleVideoConfig =
     \<lparr> scale_down = Fin 1,
       font_size = Fin 12,
       height_sample_scale = Fin 2.046,
       invert = False,
       overwrite = False,
       video_path = cu ''in.mp4'',
       output_video_path = Some (cu ''/home/u/videos/output.mp4''),
       max_fps = Fin 10,
       use_max_fps_for_output_video = False,
       rotate_field = Fin (- 1) \<rparr>"

section \<open>Persisted configuration\<close>

text \<open>
  What \<open>JSON.parse\<close> returns: any JSON value. An object is the list of its properties,
  which is also how a panel's configuration exists at run time, whatever its declared
  interface. The list is read through \<open>map_of\<close> and through its set of keys; its order
  is the insertion order, which is the order JavaScript enumerates for keys that are not
  integer-like (integer-like keys, those of a stored array or string, are enumerated
  first and in ascending order, which the list does not reproduce).
\<close>

datatype jsvalue =
    JNull
  | JBool bool
  | JNum number
  | JStr jsstring
  | JArr "jsvalue list"
  | JObj "(jsstring \<times> jsvalue) list"

type_synonym object = "(jsstring \<times> jsvalue) list"

text \<open>The key of an array index: its decimal digits.\<close>

fun decimal :: "nat \<Rightarrow> jsstring" where
  "decimal n =
     (if n < 10 then [of_nat (48 + n)] else decimal (n div 10) @ [of_nat (48 + n mod 10)])"

declare decimal.simps [simp del]

text \<open>
  The own enumerable properties that a spread \<open>...v\<close> copies: those of an object, the
  indexed elements of an array, the indexed code units of a string, and none of \<open>null\<close>,
  a boolean or a number.
\<close>

definition own_properties :: "jsvalue \<Rightarrow> object" where
  "own_properties v =
     (case v of
        JObj ps \<Rightarrow> ps
      | JArr xs \<Rightarrow> zip (map decimal [0 ..< length xs]) xs
      | JStr cs \<Rightarrow> zip (map decimal [0 ..< length cs]) (map (\<lambda>c. JStr [c]) cs)
      | _ \<Rightarrow> [])"

text \<open>
  Copying properties into an object, left to right: a key already there keeps its place
  and takes the new value, a new key goes to the end.
\<close>

definition spread :: "object \<Rightarrow> object \<Rightarrow> object" where
  "spread target props = fold (\<lambda>(k, v). AList.update k v) props target"

text \<open>
  \<open>loadPersistedConfig\<close> of both panels, which differ in the default configuration
  only: \<open>dflt\<close> is the object that \<open>defaultImageConfig()\<close>, or \<open>defaultVideoConfig()\<close>,
  returns, \<open>saved\<close> is what \<open>localStorage.getItem\<close> returns, and \<open>JSON.parse\<close> is a
  parameter, \<open>None\<close> where it throws.
\<close>

definition loadPersistedConfig ::
  "object \<Rightarrow> (jsstring \<Rightarrow> jsvalue option) \<Rightarrow> jsstring option \<Rightarrow> object"
where
  "loadPersistedConfig dflt JSON_parse saved =
     (case saved of
        None \<Rightarrow> dflt
      | Some text \<Rightarrow>
          (if truthy_str text
           then (case JSON_parse text of
                   None \<Rightarrow> dflt
                 | Some v \<Rightarrow> spread (spread [] dflt) (own_properties v))
           else dflt))"

text \<open>The object literal that \<open>defaultImageConfig\<close> returns, for any value of its fields.\<close>

definition string_or_null :: "jsstring option \<Rightarrow> jsvalue" where
  "string_or_null p = (case p of None \<Rightarrow> JNull | Some s \<Rightarrow> JStr s)"

definition ImageConfig_object :: "ImageConfig \<Rightarrow> object" where
  "ImageConfig_object c =
     [(cu ''image_path'', JStr (image_path c)),
      (cu ''scale_down'', JNum (scale_down c)),
      (cu ''font_size'', JNum (font_size c)),
      (cu ''height_sample_scale'', JNum (height_sample_scale c)),
      (cu ''invert'', JBool (invert c)),
      (cu ''output_file_path'', string_or_null (output_file_path c)),
      (cu ''output_image_path'', string_or_null (output_image_path c)),
      (cu ''overwrite'', JBool (overwrite c))]"

text \<open>An object that conforms to the interface \<open>ImageConfig\<close>.\<close>

definition is_string :: "jsvalue option \<Rightarrow> bool" where
  "is_string v = (case v of Some (JStr s) \<Rightarrow> True | _ \<Rightarrow> False)"

definition is_number :: "jsvalue option \<Rightarrow> bool" where
  "is_number v = (case v of Some (JNum x) \<Rightarrow> True | _ \<Rightarrow> False)"

definition is_boolean :: "jsvalue option \<Rightarrow> bool" where
  "is_boolean v = (case v of Some (JBool b) \<Rightarrow> True | _ \<Rightarrow> False)"

definition is_optional_string :: "jsvalue option \<Rightarrow> bool" where
  "is_optional_string v =
     (case v of None \<Rightarrow> True | Some JNull \<Rightarrow> True | Some (JStr s) \<Rightarrow> True | _ \<Rightarrow> False)"

definition is_ImageConfig :: "object \<Rightarrow> bool" where
  "is_ImageConfig ob \<longleftrightarrow>
     is_string (map_of ob (cu ''image_path'')) \<and>
     is_number (map_of ob (cu ''scale_down'')) \<and>
     is_number (map_of ob (cu ''font_size'')) \<and>
     is_number (map_of ob (cu ''height_sample_scale'')) \<and>
     is_boolean (map_of ob (cu ''invert'')) \<and>
     is_optional_string (map_of ob (cu ''output_file_path'')) \<and>
     is_optional_string (map_of ob (cu ''output_image_path'')) \<and>
     is_boolean (map_of ob (cu ''overwrite''))"

text \<open>
  A stored text for concrete evaluations: an object whose only property \<open>scale_down\<close>
  is the empty string, that is, an opening brace, the quoted key, a colon, two double
  quotes and a closing brace. \<open>JSON_parse_example\<close> is \<open>JSON.parse\<close> on this text,
  and on the text of a lone opening brace, on which \<open>JSON.parse\<close> throws.
\<close>

definition stored_example :: jsstring where
  "stored_example = [0x7B, 0x22] @ cu ''scale_down'' @ [0x22, 0x3A, 0x22, 0x22, 0x7D]"

definition JSON_parse_example :: "jsstring \<Rightarrow> jsvalue option" where
  "JSON_parse_example text =
     (if text = stored_example then Some (JObj [(cu ''scale_down'', JStr [])]) else None)"

section \<open>The engine, from the specification\<close>

text \<open>
  The engine behind the commands \<open>process_image\<close> and \<open>process_video\<close> is not among the
  sources, which hold the panels that call it. What the properties of a whole run need of
  it is modelled from the specification, section by section.
\<close>

text \<open>Modelled from the spec: the failures of the engine, the taxonomy of section 7.\<close>

datatype engine_error =
    InvalidConfig
  | DecodeError
  | InvalidDimensions
  | UnsupportedOutputFormat
  | UnsupportedFont
  | OutputExists
  | MuxError

text \<open>
  Modelled from the spec: the terminal states of a run, sections 4.4 and 4.5 (cancellation
  is an outcome of its own, not a failure).
\<close>

datatype run_outcome = Succeeded | Failed engine_error | Cancelled

text \<open>
  Modelled from the spec: the progress reports of one video run, which the engine emits
  and the sources do not hold. Sections 3 and 4.5: the reports of the Streaming state are
  the list \<open>streaming\<close>; Finalizing emits a final report of 1.0 once the output is flushed
  and closed; a failed or cancelled run emits no further report.
\<close>

definition video_progress_reports :: "number list \<Rightarrow> run_outcome \<Rightarrow> number list" where
  "video_progress_reports streaming outcome =
     (case outcome of Succeeded \<Rightarrow> streaming @ [Fin 1] | _ \<Rightarrow> streaming)"

text \<open>
  Modelled from the spec: the file system the image pipeline writes to, a map from a path
  to the bytes stored there.
\<close>

type_synonym bytes = "8 word list"

type_synonym filesystem = "jsstring \<Rightarrow> bytes option"

text \<open>
  Modelled from the spec: the sinks of an image run, sections 3 and 9: the text sink and
  the image sink, each requested when its path is set.
\<close>

datatype sink_kind = TextSink | ImageSink



text \<open>
  Modelled from the spec: the overwrite guard of one sink, section 4.4 step 3: the
  destination exists and \<open>overwrite\<close> is false.
\<close>

definition output_exists :: "bool \<Rightarrow> filesystem \<Rightarrow> sink_kind \<times> jsstring \<Rightarrow> bool" where
  "output_exists ow fs s \<longleftrightarrow> fs (snd s) \<noteq> None \<and> \<not> ow"

text \<open>
  Modelled from the spec: what can fail while the bytes of the image sink are produced,
  sections 4.3 and 4.4 step 3: the rasterizer on a font that is not fixed-pitch, the
  encoder on a destination whose extension names no supported format.
\<close>

datatype sink_failure = FontNotFixedPitch | ExtensionNotSupported

fun sink_error :: "sink_failure \<Rightarrow> engine_error" where
  "sink_error FontNotFixedPitch = UnsupportedFont"
| "sink_error ExtensionNotSupported = UnsupportedOutputFormat"

text \<open>
  Modelled from the spec: the sinks written in turn, section 4.4 step 3, in the order of
  its sentences: the text sink writes the glyph rows of the grid; the image sink runs the
  rasterizer, then encodes, then writes. The glyph rows are the parameter \<open>text_of\<close>,
  rasterizer and encoder together the parameter \<open>image_of\<close>. A failure of the image
  sink ends the run and leaves what was written before as it is (section 4.3: the failure
  of the rasterizer must not corrupt already-written outputs). The result is the file
  system after the run and the failure, if any.
\<close>

fun write_sinks ::
  "('grid \<Rightarrow> bytes) \<Rightarrow> (jsstring \<Rightarrow> 'grid \<Rightarrow> sink_failure + bytes) \<Rightarrow> 'grid
     \<Rightarrow> (sink_kind \<times> jsstring) list \<Rightarrow> filesystem \<Rightarrow> filesystem \<times> engine_error option"
where
  "write_sinks text_of image_of grid [] fs = (fs, None)"
| "write_sinks text_of image_of grid ((TextSink, p) # sinks) fs =
     write_sinks text_of image_of grid sinks (fs(p \<mapsto> text_of grid))"
| "write_sinks text_of image_of grid ((ImageSink, p) # sinks) fs =
     (case image_of p grid of
        Inl f \<Rightarrow> (fs, Some (sink_error f))
      | Inr b \<Rightarrow> write_sinks text_of image_of grid sinks (fs(p \<mapsto> b)))"

text \<open>
  Modelled from the spec: the Writing state of the image pipeline, sections 4.4 step 3
  and 7: the overwrite guard of every requested sink comes before any byte is written to
  any sink; then the sinks are written in turn.
\<close>

definition writing ::
  "('grid \<Rightarrow> bytes) \<Rightarrow> (jsstring \<Rightarrow> 'grid \<Rightarrow> sink_failure + bytes) \<Rightarrow> bool \<Rightarrow> 'grid
     \<Rightarrow> (sink_kind \<times> jsstring) list \<Rightarrow> filesystem \<Rightarrow> filesystem \<times> engine_error option"
where
  "writing text_of image_of ow grid sinks fs =
     (if list_ex (output_exists ow fs) sinks then (fs, Some OutputExists)
      else write_sinks text_of image_of grid sinks fs)"









section \<open>Properties of the image panel\<close>

lemma js_le_zero_cases: "\<not> js_le x (Fin 0) \<longleftrightarrow> js_gt x (Fin 0) \<or> x = NaN"
  by (cases x) (auto simp: js_gt_def)

lemma validationErrors_Nil_iff:
  "validationErrors c = [] \<longleftrightarrow>
     truthy_str (trim (image_path c)) \<and>
     (truthy (output_file_path c) \<or> truthy (output_image_path c)) \<and>
     \<not> js_le (scale_down c) (Fin 0) \<and>
     \<not> js_le (font_size c) (Fin 0) \<and>
     \<not> js_le (height_sample_scale c) (Fin 0)"
  by (auto simp: validationErrors_def)

text \<open>
  C1. A configuration whose only output path is white space passes the validation
  (the path is a non-empty string, hence truthy), and the payload built from it has
  both output paths \<open>null\<close>, since \<open>trim\<close> empties the path and \<open>|| null\<close> replaces it.
\<close>

theorem blank_output_path_submitted_without_sink:
  "validationErrors
     (defaultImageConfig \<lparr> image_path := cu ''in.png'', output_file_path := Some (cu '' '') \<rparr>) = []
   \<and> canSubmit False
     (defaultImageConfig \<lparr> image_path := cu ''in.png'', output_file_path := Some (cu '' '') \<rparr>)
   \<and> output_file_path (processImage_payload
     (defaultImageConfig \<lparr> image_path := cu ''in.png'', output_file_path := Some (cu '' '') \<rparr>)) = None
   \<and> output_image_path (processImage_payload
     (defaultImageConfig \<lparr> image_path := cu ''in.png'', output_file_path := Some (cu '' '') \<rparr>)) = None"
  by (simp add: validationErrors_def canSubmit_def processImage_payload_def defaultImageConfig_def
      trim_or_null_def truthy_def truthy_str_def trim_def cu_def is_white_space_def)

text \<open>
  C2 (as stated, refuted). The claim reads: the validation returns no error if and only
  if the trimmed input path is not empty, an output path is truthy and each of the three
  numeric fields is strictly greater than 0. The tests of the code are \<open>field <= 0\<close>,
  which is false for \<open>NaN\<close>: a configuration whose \<open>scale_down\<close> is \<open>NaN\<close> is accepted
  although \<open>NaN > 0\<close> is false.
\<close>

theorem validationErrors_positive_iff_counterexample:
  "\<not> (validationErrors
        (defaultImageConfig \<lparr> scale_down := NaN, image_path := cu ''in.png'',
                              output_file_path := Some (cu ''out.txt'') \<rparr>) = []
      \<longleftrightarrow>
        truthy_str (trim (image_path
          (defaultImageConfig \<lparr> scale_down := NaN, image_path := cu ''in.png'',
                                output_file_path := Some (cu ''out.txt'') \<rparr>))) \<and>
        (truthy (output_file_path
          (defaultImageConfig \<lparr> scale_down := NaN, image_path := cu ''in.png'',
                                output_file_path := Some (cu ''out.txt'') \<rparr>)) \<or>
         truthy (output_image_path
          (defaultImageConfig \<lparr> scale_down := NaN, image_path := cu ''in.png'',
                                output_file_path := Some (cu ''out.txt'') \<rparr>))) \<and>
        js_gt (scale_down
          (defaultImageConfig \<lparr> scale_down := NaN, image_path := cu ''in.png'',
                                output_file_path := Some (cu ''out.txt'') \<rparr>)) (Fin 0) \<and>
        js_gt (font_size
          (defaultImageConfig \<lparr> scale_down := NaN, image_path := cu ''in.png'',
                                output_file_path := Some (cu ''out.txt'') \<rparr>)) (Fin 0) \<and>
        js_gt (height_sample_scale
          (defaultImageConfig \<lparr> scale_down := NaN, image_path := cu ''in.png'',
                                output_file_path := Some (cu ''out.txt'') \<rparr>)) (Fin 0))"
  by (simp add: validationErrors_def defaultImageConfig_def truthy_def truthy_str_def
      trim_def cu_def is_white_space_def js_gt_def)

text \<open>
  C2 (amended). The validation returns no error if and only if the trimmed input path
  is not empty, at least one of the two output paths is truthy, and each of
  \<open>scale_down\<close>, \<open>font_size\<close> and \<open>height_sample_scale\<close> is strictly greater than 0 or
  is \<open>NaN\<close> (that is, none of them is \<open><= 0\<close>).
\<close>

theorem validationErrors_empty_iff:
  "validationErrors c = [] \<longleftrightarrow>
     trim (image_path c) \<noteq> [] \<and>
     (truthy (output_file_path c) \<or> truthy (output_image_path c)) \<and>
     (js_gt (scale_down c) (Fin 0) \<or> scale_down c = NaN) \<and>
     (js_gt (font_size c) (Fin 0) \<or> font_size c = NaN) \<and>
     (js_gt (height_sample_scale c) (Fin 0) \<or> height_sample_scale c = NaN)"
  unfolding validationErrors_Nil_iff js_le_zero_cases truthy_str_def ..

theorem validationErrors_empty_iff_witness:
  "validationErrors
     (defaultImageConfig \<lparr> image_path := cu ''in.png'',
                           output_file_path := Some (cu ''out.txt'') \<rparr>) = []"
  using validationErrors_empty_iff
    [of "defaultImageConfig \<lparr> image_path := cu ''in.png'',
                               output_file_path := Some (cu ''out.txt'') \<rparr>"]
  by (simp add: defaultImageConfig_def truthy_def truthy_str_def trim_def cu_def
      is_white_space_def js_gt_def)

text \<open>
  C8. \<open>defaultImageConfig\<close> is a constant: \<open>scale_down\<close> is 1.0, \<open>font_size\<close> 12.0 and
  \<open>height_sample_scale\<close> 2.046, all strictly positive; \<open>invert\<close> and \<open>overwrite\<close> are
  false, the input path is empty and both output paths are \<open>null\<close>. The validation
  rejects it with exactly two errors, the missing input and the missing output, in this
  order.
\<close>

theorem defaultImageConfig_rejected:
  "scale_down defaultImageConfig = Fin 1.0 \<and> js_gt (scale_down defaultImageConfig) (Fin 0)
   \<and> font_size defaultImageConfig = Fin 12.0 \<and> js_gt (font_size defaultImageConfig) (Fin 0)
   \<and> height_sample_scale defaultImageConfig = Fin 2.046
   \<and> js_gt (height_sample_scale defaultImageConfig) (Fin 0)
   \<and> invert defaultImageConfig = False \<and> overwrite defaultImageConfig = False
   \<and> image_path defaultImageConfig = [] \<and> output_file_path defaultImageConfig = None
   \<and> output_image_path defaultImageConfig = None
   \<and> validationErrors defaultImageConfig = [msg_input_image, msg_one_output]
   \<and> msg_input_image = cu ''Input image is required.''
   \<and> msg_one_output = cu ''Choose at least one output: text file or image file.''
   \<and> \<not> canSubmit False defaultImageConfig"
  by (simp add: defaultImageConfig_def validationErrors_def canSubmit_def js_gt_def
      truthy_def truthy_str_def trim_def cu_def msg_input_image_def msg_one_output_def)

section \<open>Properties of the persisted configuration\<close>

lemma map_of_spread:
  "map_of (spread target props) = map_of target ++ map_of (rev props)"
  unfolding spread_def
proof (induction props arbitrary: target)
  case Nil
  show ?case by simp
next
  case (Cons a props)
  obtain k v where a: "a = (k, v)" by (cases a)
  show ?case
    by (simp add: a Cons.IH AList.update_conv' map_add_upd_left fun_eq_iff map_add_def
        split: option.splits)
qed

lemma keys_spread: "fst ` set (spread target props) = fst ` set target \<union> fst ` set props"
  unfolding spread_def
proof (induction props arbitrary: target)
  case Nil
  show ?case by simp
next
  case (Cons a props)
  obtain k v where a: "a = (k, v)" by (cases a)
  have "fst ` set (fold (\<lambda>(k, v). AList.update k v) props (AList.update k v target))
          = fst ` set (AList.update k v target) \<union> fst ` set props"
    by (rule Cons.IH)
  then show ?case by (simp add: a AList.dom_update Un_ac)
qed

lemma spread_Nil_distinct: "distinct (map fst ob) \<Longrightarrow> spread [] ob = ob"
proof -
  have "distinct (map fst (acc @ ob)) \<Longrightarrow> spread acc ob = acc @ ob" for acc
  proof (induction ob arbitrary: acc)
    case Nil
    then show ?case by (simp add: spread_def)
  next
    case (Cons a ob)
    obtain k v where a: "a = (k, v)" by (cases a)
    from Cons.prems have "k \<notin> fst ` set acc" by (auto simp: a)
    then have u: "AList.update k v acc = acc @ [(k, v)]"
      by (induction acc) auto
    from Cons.prems have "distinct (map fst ((acc @ [(k, v)]) @ ob))" by (simp add: a)
    from Cons.IH [OF this] show ?case by (simp add: spread_def a u)
  qed
  from this [of "[]"] show "distinct (map fst ob) \<Longrightarrow> spread [] ob = ob" by simp
qed

lemma distinct_ImageConfig_object: "distinct (map fst (ImageConfig_object c))"
  by (simp add: ImageConfig_object_def cu_def)

lemma is_ImageConfig_object: "is_ImageConfig (ImageConfig_object c)"
  by (simp add: is_ImageConfig_def ImageConfig_object_def cu_def is_string_def is_number_def
      is_boolean_def is_optional_string_def string_or_null_def split: option.splits)

text \<open>
  C9 (amended). \<open>loadPersistedConfig\<close> returns the default configuration when nothing is
  stored, when the stored text is empty and when \<open>JSON.parse\<close> throws. Otherwise it
  returns the default configuration overridden by the properties of the parsed value: a
  field absent from the stored JSON has its default value, a field present has the stored
  value, whatever its type. Every field of the default configuration is defined in the
  result.
\<close>

theorem loadPersistedConfig_merge:
  assumes "distinct (map fst dflt)"
  shows "(saved = None \<or> saved = Some [] \<longrightarrow> loadPersistedConfig dflt parse saved = dflt)
    \<and> (\<forall>text. saved = Some text \<and> parse text = None
          \<longrightarrow> loadPersistedConfig dflt parse saved = dflt)
    \<and> (\<forall>text v k. saved = Some text \<and> text \<noteq> [] \<and> parse text = Some v
            \<and> k \<notin> fst ` set (own_properties v)
          \<longrightarrow> map_of (loadPersistedConfig dflt parse saved) k = map_of dflt k)
    \<and> (\<forall>text v k x. saved = Some text \<and> text \<noteq> [] \<and> parse text = Some v
            \<and> map_of (rev (own_properties v)) k = Some x
          \<longrightarrow> map_of (loadPersistedConfig dflt parse saved) k = Some x)
    \<and> fst ` set dflt \<subseteq> fst ` set (loadPersistedConfig dflt parse saved)"
proof -
  have n: "map_of (rev ps) k = None" if "k \<notin> fst ` set ps" for ps :: object and k
    using that by (simp add: map_of_eq_None_iff)
  show ?thesis
    using assms
    by (auto simp: loadPersistedConfig_def truthy_str_def spread_Nil_distinct map_of_spread
        keys_spread map_add_def n split: option.splits)
qed

theorem loadPersistedConfig_merge_witness:
  "distinct (map fst (ImageConfig_object defaultImageConfig))
   \<and> loadPersistedConfig (ImageConfig_object defaultImageConfig) JSON_parse_example None
       = ImageConfig_object defaultImageConfig
   \<and> loadPersistedConfig (ImageConfig_object defaultImageConfig) JSON_parse_example (Some [0x7B])
       = ImageConfig_object defaultImageConfig
   \<and> map_of (loadPersistedConfig (ImageConfig_object defaultImageConfig) JSON_parse_example
        (Some stored_example)) (cu ''font_size'') = Some (JNum (Fin 12))
   \<and> map_of (loadPersistedConfig (ImageConfig_object defaultImageConfig) JSON_parse_example
        (Some stored_example)) (cu ''scale_down'') = Some (JStr [])"
  using loadPersistedConfig_merge [where dflt = "ImageConfig_object defaultImageConfig"
      and saved = None and parse = JSON_parse_example]
    loadPersistedConfig_merge [where dflt = "ImageConfig_object defaultImageConfig"
      and saved = "Some [0x7B]" and parse = JSON_parse_example]
    loadPersistedConfig_merge [where dflt = "ImageConfig_object defaultImageConfig"
      and saved = "Some stored_example" and parse = JSON_parse_example]
    distinct_ImageConfig_object [of defaultImageConfig]
  by (simp add: JSON_parse_example_def stored_example_def own_properties_def cu_def
      ImageConfig_object_def defaultImageConfig_def)

text \<open>
  C9 (as stated, refuted). The claim reads: for any stored content the result is a
  well-formed configuration. For the stored object whose \<open>scale_down\<close> is the empty
  string, the result has the string as its \<open>scale_down\<close>, where the interface
  \<open>ImageConfig\<close> declares a number.
\<close>

theorem loadPersistedConfig_well_formed_counterexample:
  "JSON_parse_example stored_example = Some (JObj [(cu ''scale_down'', JStr [])])
   \<and> map_of (loadPersistedConfig (ImageConfig_object defaultImageConfig) JSON_parse_example
        (Some stored_example)) (cu ''scale_down'') = Some (JStr [])
   \<and> \<not> is_ImageConfig (loadPersistedConfig (ImageConfig_object defaultImageConfig)
        JSON_parse_example (Some stored_example))"
  by (simp add: loadPersistedConfig_def JSON_parse_example_def stored_example_def
      own_properties_def spread_def ImageConfig_object_def defaultImageConfig_def
      is_ImageConfig_def is_number_def truthy_str_def cu_def string_or_null_def)

section \<open>Properties of the video panel\<close>

subsection \<open>Rotation\<close>

lemma msg_rotate_distinct:
  "msg_rotate \<noteq> msg_input_video" "msg_rotate \<noteq> msg_output_video"
  "msg_rotate \<noteq> msg_scale_down" "msg_rotate \<noteq> msg_font_size"
  "msg_rotate \<noteq> msg_height_sample_scale" "msg_rotate \<noteq> msg_max_fps"
  by (simp_all add: msg_rotate_def msg_input_video_def msg_output_video_def msg_scale_down_def
      msg_font_size_def msg_height_sample_scale_def msg_max_fps_def cu_def)

text \<open>
  C3. For every video configuration, the validation reports the rotate error exactly when
  \<open>rotate\<close> is none of -1, 0, 1 and 2 (\<open>NaN\<close>, the infinities and fractions are errors).
\<close>

theorem rotate_error_iff:
  "msg_rotate \<in> set (validationErrors_video c) \<longleftrightarrow>
     rotate_field c \<notin> {Fin (- 1), Fin 0, Fin 1, Fin 2}"
  by (cases "rotate_field c")
     (auto simp: validationErrors_video_def msg_rotate_distinct js_strict_eq_def
        array_includes_def)

theorem rotate_error_iff_witness:
  "msg_rotate \<in> set (validationErrors_video (exampleVideoConfig \<lparr> rotate_field := Fin 3 \<rparr>))
   \<and> msg_rotate \<notin> set (validationErrors_video (exampleVideoConfig \<lparr> rotate_field := Fin 2 \<rparr>))
   \<and> msg_rotate \<notin> set (validationErrors_video exampleVideoConfig)"
  using rotate_error_iff [of "exampleVideoConfig \<lparr> rotate_field := Fin 3 \<rparr>"]
    rotate_error_iff [of "exampleVideoConfig \<lparr> rotate_field := Fin 2 \<rparr>"]
    rotate_error_iff [of exampleVideoConfig]
  by (simp add: exampleVideoConfig_def)

subsection \<open>Progress\<close>

lemma monotone_rounding_round_1024: "monotone_rounding round_1024"
  unfolding monotone_rounding_def round_1024_def
  by (auto intro!: floor_mono divide_right_mono)

lemma progress_on_video_progress:
  "progress (on_video_progress rnd p st)
     = Math_min (Fin 100) (Math_floor (js_times rnd p (Fin 100)))"
  by (simp add: on_video_progress_def Let_def)

lemma unit_cases:
  assumes "js_le (Fin 0) p" "js_le p (Fin 1)"
  obtains r where "p = Fin r" "0 \<le> r" "r \<le> 1"
  using assms by (cases p) auto

lemma rnd_range:
  assumes "monotone_rounding rnd" "0 \<le> x" "x \<le> 100"
  obtains y where "rnd x = Fin y" "0 \<le> y" "y \<le> 100"
proof -
  from assms have "js_le (Fin 0) (rnd x)" "js_le (rnd x) (Fin 100)"
    unfolding monotone_rounding_def by metis+
  then show thesis using that by (cases "rnd x") auto
qed

lemma displayed_unit:
  assumes rnd: "monotone_rounding rnd" and p: "js_le (Fin 0) p" "js_le p (Fin 1)"
  shows "\<exists>r y. p = Fin r \<and> 0 \<le> r \<and> r \<le> 1 \<and> rnd (r * 100) = Fin y \<and> 0 \<le> y \<and> y \<le> 100 \<and>
    Math_min (Fin 100) (Math_floor (js_times rnd p (Fin 100))) = Fin (of_int \<lfloor>y\<rfloor>)"
proof -
  from p obtain r where r: "p = Fin r" "0 \<le> r" "r \<le> 1" by (rule unit_cases)
  then have "0 \<le> r * 100" "r * 100 \<le> 100" by simp_all
  with rnd obtain y where y: "rnd (r * 100) = Fin y" "0 \<le> y" "y \<le> 100" by (rule rnd_range)
  from y have "\<lfloor>y\<rfloor> \<le> 100" by linarith
  then have "real_of_int \<lfloor>y\<rfloor> \<le> 100" by linarith
  then have "Math_min (Fin 100) (Math_floor (js_times rnd p (Fin 100))) = Fin (of_int \<lfloor>y\<rfloor>)"
    using r y by auto
  with r y show ?thesis by blast
qed

lemma displayed_percent:
  assumes "monotone_rounding rnd" and "js_le (Fin 0) p" and "js_le p (Fin 1)"
  shows "\<exists>k. Math_min (Fin 100) (Math_floor (js_times rnd p (Fin 100))) = Fin (of_int k)
           \<and> 0 \<le> k \<and> k \<le> 100"
proof -
  from displayed_unit [OF assms] obtain y :: real where y: "0 \<le> y" "y \<le> 100"
    and d: "Math_min (Fin 100) (Math_floor (js_times rnd p (Fin 100))) = Fin (of_int \<lfloor>y\<rfloor>)"
    by blast
  from y have "0 \<le> \<lfloor>y\<rfloor>" "\<lfloor>y\<rfloor> \<le> 100" by linarith+
  with d show ?thesis by blast
qed

lemma displayed_mono:
  assumes rnd: "monotone_rounding rnd"
    and p: "js_le (Fin 0) p" "js_le p (Fin 1)" and q: "js_le (Fin 0) q" "js_le q (Fin 1)"
    and pq: "js_le p q"
  shows "js_le (Math_min (Fin 100) (Math_floor (js_times rnd p (Fin 100))))
               (Math_min (Fin 100) (Math_floor (js_times rnd q (Fin 100))))"
proof -
  from displayed_unit [OF rnd p] obtain r y where r: "p = Fin r" "rnd (r * 100) = Fin y"
    and dp: "Math_min (Fin 100) (Math_floor (js_times rnd p (Fin 100))) = Fin (of_int \<lfloor>y\<rfloor>)"
    by blast
  from displayed_unit [OF rnd q] obtain s z where s: "q = Fin s" "rnd (s * 100) = Fin z"
    and dq: "Math_min (Fin 100) (Math_floor (js_times rnd q (Fin 100))) = Fin (of_int \<lfloor>z\<rfloor>)"
    by blast
  from pq r s have "r * 100 \<le> s * 100" by simp
  with rnd have "js_le (rnd (r * 100)) (rnd (s * 100))"
    unfolding monotone_rounding_def by blast
  with r s have "y \<le> z" by simp
  then have "\<lfloor>y\<rfloor> \<le> \<lfloor>z\<rfloor>" by (rule floor_mono)
  then show ?thesis unfolding dp dq by simp
qed

lemma progress_trace_map:
  "progress_trace rnd st ps
     = map (\<lambda>p. Math_min (Fin 100) (Math_floor (js_times rnd p (Fin 100)))) ps"
  by (induction ps arbitrary: st) (simp_all add: progress_on_video_progress)

text \<open>
  C4. Every payload \<open>p\<close> received on \<open>video-progress\<close> sets the displayed progress to
  \<open>Math.min(100, Math.floor(p * 100))\<close>; for a payload in [0, 1] this is a whole number
  between 0 and 100, whatever the state of the panel.
\<close>

theorem video_progress_bounded:
  "progress (on_video_progress rnd p st)
     = Math_min (Fin 100) (Math_floor (js_times rnd p (Fin 100)))
   \<and> (monotone_rounding rnd \<and> js_le (Fin 0) p \<and> js_le p (Fin 1)
      \<longrightarrow> js_le (Fin 0) (progress (on_video_progress rnd p st))
        \<and> js_le (progress (on_video_progress rnd p st)) (Fin 100)
        \<and> (\<exists>k. progress (on_video_progress rnd p st) = Fin (of_int k) \<and> 0 \<le> k \<and> k \<le> 100))"
proof -
  have "js_le (Fin 0) (progress (on_video_progress rnd p st))
      \<and> js_le (progress (on_video_progress rnd p st)) (Fin 100)
      \<and> (\<exists>k. progress (on_video_progress rnd p st) = Fin (of_int k) \<and> 0 \<le> k \<and> k \<le> 100)"
    if "monotone_rounding rnd" "js_le (Fin 0) p" "js_le p (Fin 1)"
  proof -
    from displayed_percent [OF that] obtain k :: int where k: "0 \<le> k" "k \<le> 100"
      and d: "Math_min (Fin 100) (Math_floor (js_times rnd p (Fin 100))) = Fin (of_int k)"
      by blast
    then show ?thesis
      unfolding progress_on_video_progress d by auto
  qed
  then show ?thesis
    by (simp add: progress_on_video_progress)
qed

theorem video_progress_bounded_witness:
  "monotone_rounding round_1024 \<and> js_le (Fin 0) (Fin (3 / 10)) \<and> js_le (Fin (3 / 10)) (Fin 1)
   \<and> progress (on_video_progress round_1024 (Fin (3 / 10)) initialVideoState) = Fin 30
   \<and> js_le (Fin 0) (progress (on_video_progress round_1024 (Fin (3 / 10)) initialVideoState))
   \<and> js_le (progress (on_video_progress round_1024 (Fin (3 / 10)) initialVideoState)) (Fin 100)"
  using video_progress_bounded [of round_1024 "Fin (3 / 10)" initialVideoState]
    monotone_rounding_round_1024
  by (simp add: round_1024_def)

lemma progress_fold:
  "progress (fold (on_video_progress rnd) ps st)
     = (if ps = [] then progress st
        else Math_min (Fin 100) (Math_floor (js_times rnd (last ps) (Fin 100))))"
  by (induction ps arbitrary: st) (simp_all add: progress_on_video_progress)

lemma progress_processVideo:
  "progress (processVideo rnd config now ps r st)
     = (case r of
          Resolved \<Rightarrow> Fin 100
        | Rejected e \<Rightarrow>
            (if ps = [] then Fin 0
             else Math_min (Fin 100) (Math_floor (js_times rnd (last ps) (Fin 100)))))"
  by (simp add: processVideo_def processVideo_settled_def progress_fold processVideo_begin_def
      split: settled.splits)

lemma sorted_wrt_last:
  assumes "sorted_wrt P xs" "x \<in> set xs" "P (last xs) (last xs)"
  shows "P x (last xs)"
  using assms by (induction xs) (auto split: if_splits)

text \<open>
  C5. For any non-decreasing sequence of payloads in [0, 1] delivered on
  \<open>video-progress\<close>, the values shown, \<open>Math.min(100, Math.floor(p * 100))\<close> for each
  payload \<open>p\<close>, are non-decreasing; and so is the progress across one run, from the
  reset to 0 through the payloads to the value left when \<open>process_video\<close> has settled.
\<close>

theorem progress_nondecreasing:
  assumes rnd: "monotone_rounding rnd"
    and unit: "\<forall>p \<in> set ps. js_le (Fin 0) p \<and> js_le p (Fin 1)"
    and sorted: "sorted_wrt js_le ps"
  shows "progress_trace rnd st ps
           = map (\<lambda>p. Math_min (Fin 100) (Math_floor (js_times rnd p (Fin 100)))) ps
       \<and> sorted_wrt js_le (progress_trace rnd st ps)
       \<and> sorted_wrt js_le (run_progress_trace rnd config now ps r st)"
proof -
  let ?d = "\<lambda>p. Math_min (Fin 100) (Math_floor (js_times rnd p (Fin 100)))"
  have m: "sorted_wrt js_le (map ?d ps)"
    using unit sorted
    by (auto simp: sorted_wrt_map intro!: sorted_wrt_mono_rel [where P = js_le]
        displayed_mono [OF rnd])
  have b: "js_le (Fin 0) (?d p) \<and> js_le (?d p) (Fin 100)" if "p \<in> set ps" for p
  proof -
    from that unit have "js_le (Fin 0) p" "js_le p (Fin 1)" by auto
    from displayed_percent [OF rnd this] show ?thesis by auto
  qed
  have l: "js_le (?d p) (?d (last ps))" if "p \<in> set ps" for p
  proof -
    from that have "ps \<noteq> []" by auto
    then have "last ps \<in> set ps" by simp
    with unit have u: "js_le (Fin 0) (last ps)" "js_le (last ps) (Fin 1)" by auto
    from that unit have v: "js_le (Fin 0) p" "js_le p (Fin 1)" by auto
    from u have "js_le (last ps) (last ps)" by (cases "last ps") auto
    with sorted that have "js_le p (last ps)" by (rule sorted_wrt_last)
    with rnd v u show ?thesis by (rule displayed_mono)
  qed
  have f: "js_le (Fin 0) (progress (processVideo rnd config now ps r st))"
    using b [of "last ps"] by (cases r) (auto simp: progress_processVideo)
  have g: "js_le (?d p) (progress (processVideo rnd config now ps r st))" if "p \<in> set ps" for p
    using b [OF that] l [OF that] that by (cases r) (auto simp: progress_processVideo)
  have "sorted_wrt js_le (Fin 0 # map ?d ps @ [progress (processVideo rnd config now ps r st)])"
    using m b f g by (auto simp: sorted_wrt_append)
  then show ?thesis
    using m by (simp add: progress_trace_map run_progress_trace_def processVideo_begin_def)
qed

theorem progress_nondecreasing_witness:
  "monotone_rounding round_1024
   \<and> list_all (\<lambda>p. js_le (Fin 0) p \<and> js_le p (Fin 1)) [Fin 0, Fin (3 / 10), Fin (3 / 10), Fin 1]
   \<and> sorted_wrt js_le [Fin 0, Fin (3 / 10), Fin (3 / 10), Fin 1]
   \<and> progress_trace round_1024 initialVideoState [Fin 0, Fin (3 / 10), Fin (3 / 10), Fin 1]
       = [Fin 0, Fin 30, Fin 30, Fin 100]
   \<and> run_progress_trace round_1024 exampleVideoConfig (Fin 0)
        [Fin 0, Fin (3 / 10), Fin (3 / 10), Fin 1] Resolved initialVideoState
       = [Fin 0, Fin 0, Fin 30, Fin 30, Fin 100, Fin 100]
   \<and> sorted_wrt js_le (run_progress_trace round_1024 exampleVideoConfig (Fin 0)
        [Fin 0, Fin (3 / 10), Fin (3 / 10), Fin 1] Resolved initialVideoState)"
  using progress_nondecreasing [OF monotone_rounding_round_1024,
      of "[Fin 0, Fin (3 / 10), Fin (3 / 10), Fin 1]" initialVideoState exampleVideoConfig
        "Fin 0" Resolved]
    monotone_rounding_round_1024
  by (simp add: round_1024_def progress_on_video_progress run_progress_trace_def
      processVideo_def processVideo_settled_def processVideo_begin_def)

subsection \<open>Output folder\<close>

lemma str_includes_singleton: "str_includes s [c] \<longleftrightarrow> c \<in> set s"
  by (induction s) auto

lemma endsWith_iff: "endsWith s t \<longleftrightarrow> (\<exists>xs. s = xs @ t)"
proof
  assume "endsWith s t"
  then have "s = take (length s - length t) s @ t"
    unfolding endsWith_def by (metis append_take_drop_id)
  then show "\<exists>xs. s = xs @ t" ..
next
  assume "\<exists>xs. s = xs @ t"
  then show "endsWith s t" by (auto simp: endsWith_def)
qed

lemma pickOutputFile_separator_cases:
  "pickOutputFile_separator dir = (if 0x5C \<in> set dir then [0x5C] else [0x2F])"
  by (simp add: pickOutputFile_separator_def backslash_def slash_def str_includes_singleton)

text \<open>
  C10 (as stated, refuted). The claim reads: the new path is the directory, then exactly
  one separator, then the file name, and no separator is ever doubled. For a drive root,
  the letter C, a colon and a backslash (code units 0x43, 0x3A, 0x5C), the code appends
  no separator: the path is the directory followed at once by the file name, not by a
  separator and the file name. For a directory string that ends with two slashes,
  \<open>/tmp//\<close>, the path is \<open>/tmp//output.mp4\<close>, with the separator doubled before
  the file name.
\<close>

theorem pickOutputFile_one_separator_counterexample:
  "pickOutputFile_separator [0x43, 0x3A, 0x5C] = backslash
   \<and> output_video_path (pickOutputFile (Some [0x43, 0x3A, 0x5C]) exampleVideoConfig)
     = Some ([0x43, 0x3A, 0x5C] @ cu ''output.mp4'')
   \<and> output_video_path (pickOutputFile (Some [0x43, 0x3A, 0x5C]) exampleVideoConfig)
     \<noteq> Some ([0x43, 0x3A, 0x5C] @ backslash @ cu ''output.mp4'')
   \<and> pickOutputFile_separator (cu ''/tmp//'') = slash
   \<and> output_video_path (pickOutputFile (Some (cu ''/tmp//'')) exampleVideoConfig)
     = Some (cu ''/tmp//output.mp4'')
   \<and> endsWith (cu ''/tmp//output.mp4'') (slash @ slash @ cu ''output.mp4'')"
  by (simp add: pickOutputFile_def pickOutputFile_path_def pickOutputFile_separator_def Let_def
      backslash_def slash_def endsWith_def cu_def)

text \<open>
  C10 (amended). For every directory string \<open>dir\<close> the dialog returns, the separator is
  the backslash when \<open>dir\<close> contains a backslash and the slash otherwise, and
  \<open>output_video_path\<close> becomes \<open>dir\<close>, followed by the separator unless \<open>dir\<close> already
  ends with it, followed by \<open>output.mp4\<close>. The path always ends with the separator and
  the file name, and the separator is doubled before the file name exactly when \<open>dir\<close>
  itself ends with two separators.
\<close>

theorem pickOutputFile_path_join:
  "pickOutputFile_separator dir = (if 0x5C \<in> set dir then backslash else slash)
   \<and> output_video_path (pickOutputFile (Some dir) c) = Some (pickOutputFile_path dir)
   \<and> (endsWith dir (pickOutputFile_separator dir)
      \<longrightarrow> pickOutputFile_path dir = dir @ cu ''output.mp4'')
   \<and> (\<not> endsWith dir (pickOutputFile_separator dir)
      \<longrightarrow> pickOutputFile_path dir = dir @ pickOutputFile_separator dir @ cu ''output.mp4'')
   \<and> endsWith (pickOutputFile_path dir) (pickOutputFile_separator dir @ cu ''output.mp4'')
   \<and> (endsWith (pickOutputFile_path dir)
         (pickOutputFile_separator dir @ pickOutputFile_separator dir @ cu ''output.mp4'')
      \<longleftrightarrow> endsWith dir (pickOutputFile_separator dir @ pickOutputFile_separator dir))"
proof -
  have sep: "pickOutputFile_separator dir = (if 0x5C \<in> set dir then backslash else slash)"
    by (simp add: pickOutputFile_separator_cases backslash_def slash_def)
  have cfg: "output_video_path (pickOutputFile (Some dir) c) = Some (pickOutputFile_path dir)"
    by (simp add: pickOutputFile_def)
  have join: "(endsWith dir (pickOutputFile_separator dir)
        \<longrightarrow> pickOutputFile_path dir = dir @ cu ''output.mp4'')
     \<and> (\<not> endsWith dir (pickOutputFile_separator dir)
        \<longrightarrow> pickOutputFile_path dir = dir @ pickOutputFile_separator dir @ cu ''output.mp4'')"
    by (simp add: pickOutputFile_path_def Let_def)
  have ends: "endsWith (pickOutputFile_path dir) (pickOutputFile_separator dir @ cu ''output.mp4'')"
    by (auto simp: pickOutputFile_path_def Let_def endsWith_iff)
  have twice: "endsWith (pickOutputFile_path dir)
         (pickOutputFile_separator dir @ pickOutputFile_separator dir @ cu ''output.mp4'')
      \<longleftrightarrow> endsWith dir (pickOutputFile_separator dir @ pickOutputFile_separator dir)"
    by (auto simp: pickOutputFile_path_def Let_def pickOutputFile_separator_cases endsWith_iff)
  from sep cfg join ends twice show ?thesis by blast
qed

theorem pickOutputFile_path_join_witness:
  "\<not> endsWith (cu ''/home/u/videos'') (pickOutputFile_separator (cu ''/home/u/videos''))
   \<and> output_video_path (pickOutputFile (Some (cu ''/home/u/videos'')) exampleVideoConfig)
       = Some (cu ''/home/u/videos/output.mp4'')
   \<and> endsWith [0x43, 0x3A, 0x5C] (pickOutputFile_separator [0x43, 0x3A, 0x5C])
   \<and> output_video_path (pickOutputFile (Some [0x43, 0x3A, 0x5C]) exampleVideoConfig)
       = Some ([0x43, 0x3A, 0x5C] @ cu ''output.mp4'')"
  using pickOutputFile_path_join [of "cu ''/home/u/videos''" exampleVideoConfig]
    pickOutputFile_path_join [of "[0x43, 0x3A, 0x5C]" exampleVideoConfig]
  by (simp add: endsWith_def slash_def backslash_def cu_def)

subsection \<open>A successful run\<close>

text \<open>
  C6. The last report of a successful run is exactly 1.0, on which the listener shows
  100; and when \<open>process_video\<close> resolves, \<open>processVideo\<close> leaves the progress at 100
  and the status \<open>done\<close>, whatever payloads were delivered before.
\<close>

theorem successful_run_complete:
  assumes "rnd 100 = Fin 100"
  shows "last (video_progress_reports streaming Succeeded) = Fin 1
    \<and> progress (fold (on_video_progress rnd) (video_progress_reports streaming Succeeded) st)
        = Fin 100
    \<and> progress (processVideo rnd config now payloads Resolved st) = Fin 100
    \<and> status (processVideo rnd config now payloads Resolved st) = Done
    \<and> processing (processVideo rnd config now payloads Resolved st) = False"
  using assms
  by (simp add: video_progress_reports_def progress_on_video_progress processVideo_def
      processVideo_settled_def)

theorem successful_run_complete_witness:
  "round_1024 100 = Fin 100
   \<and> video_progress_reports [Fin (1 / 4), Fin (1 / 2)] Succeeded = [Fin (1 / 4), Fin (1 / 2), Fin 1]
   \<and> progress_trace round_1024 (processVideo_begin (Fin 0) initialVideoState)
        (video_progress_reports [Fin (1 / 4), Fin (1 / 2)] Succeeded) = [Fin 25, Fin 50, Fin 100]
   \<and> progress (processVideo round_1024 exampleVideoConfig (Fin 0)
        (video_progress_reports [Fin (1 / 4), Fin (1 / 2)] Succeeded) Resolved initialVideoState)
       = Fin 100
   \<and> status (processVideo round_1024 exampleVideoConfig (Fin 0)
        (video_progress_reports [Fin (1 / 4), Fin (1 / 2)] Succeeded) Resolved initialVideoState)
       = Done"
  using successful_run_complete [where rnd = round_1024
      and streaming = "[Fin (1 / 4), Fin (1 / 2)]"
      and st = initialVideoState and config = exampleVideoConfig and now = "Fin 0"
      and payloads = "video_progress_reports [Fin (1 / 4), Fin (1 / 2)] Succeeded"]
  by (simp add: round_1024_def video_progress_reports_def progress_on_video_progress)

section \<open>Properties of the engine, as specified\<close>















end
